theory Spec2Isabelle
  imports Complex_Main "HOL-Library.Multiset"
begin

section \<open>Appointment booking backend: a shallow embedding of the controller\<close>

text \<open>
  The theory embeds the appointment controller (\<^verbatim>\<open>getAppointments\<close>,
  \<^verbatim>\<open>bookAppointment\<close>, \<^verbatim>\<open>verifyPayment\<close>, \<^verbatim>\<open>cancelAppointment\<close>,
  \<^verbatim>\<open>deleteAppointment\<close>), the schema of \<^verbatim>\<open>models/Appointment.js\<close> and
  \<^verbatim>\<open>utils/sendEmail.js\<close>. A handler is a function from an environment, a request and
  the state of the collaborators to a response and the new state. What the handlers reach
  outside the repository (the clock, the date parser and the HMAC of the runtime, the
  payment gateway, the mail transport, faults of the document store) is a field of the
  environment, so every theorem holds for every behaviour of those parts.

  Request fields are modelled as absent (\<open>None\<close>) or a string; other JSON types of a
  field are outside the model. Strings are byte strings. Numbers are exact integers (a
  JavaScript number is exact up to \<open>2^53\<close>), with \<open>NaN\<close> written out where the code can
  produce it. Store-maintained timestamps and version keys are not modelled.
\<close>

subsection \<open>The two regular expressions of the booking check\<close>

text \<open>
  Both patterns are anchored with \<^verbatim>\<open>^\<close> and \<^verbatim>\<open>$\<close> and use regular constructs only, so
  \<^verbatim>\<open>regex.test(s)\<close> is membership of the whole string in the pattern's language. The
  language is decided by partial derivatives.
\<close>

datatype cls = WordChar | DigitChar | OneOf string

datatype rx =
    Never
  | Eps
  | Sym cls
  | Seq rx rx
  | Alt rx rx
  | Star rx

definition is_digit :: "char \<Rightarrow> bool" where
  "is_digit c = (c \<in> set ''0123456789'')"

definition is_word_char :: "char \<Rightarrow> bool" where
  "is_word_char c =
     (c \<in> set ''abcdefghijklmnopqrstuvwxyzABCDEFGHIJKLMNOPQRSTUVWXYZ0123456789_'')"

fun in_cls :: "cls \<Rightarrow> char \<Rightarrow> bool" where
  "in_cls WordChar c = is_word_char c"
| "in_cls DigitChar c = is_digit c"
| "in_cls (OneOf cs) c = (c \<in> set cs)"

fun nullable :: "rx \<Rightarrow> bool" where
  "nullable Never = False"
| "nullable Eps = True"
| "nullable (Sym k) = False"
| "nullable (Seq r s) = (nullable r \<and> nullable s)"
| "nullable (Alt r s) = (nullable r \<or> nullable s)"
| "nullable (Star r) = True"

text \<open>
  The partial derivatives of a pattern by a character: the patterns that remain to be
  matched after reading it. A run keeps the set of remaining patterns, without duplicates.
\<close>

fun pderiv :: "char \<Rightarrow> rx \<Rightarrow> rx list" where
  "pderiv c Never = []"
| "pderiv c Eps = []"
| "pderiv c (Sym k) = (if in_cls k c then [Eps] else [])"
| "pderiv c (Seq r s) =
     map (\<lambda>r'. Seq r' s) (pderiv c r) @ (if nullable r then pderiv c s else [])"
| "pderiv c (Alt r s) = pderiv c r @ pderiv c s"
| "pderiv c (Star r) = map (\<lambda>r'. Seq r' (Star r)) (pderiv c r)"

fun rx_run :: "rx list \<Rightarrow> string \<Rightarrow> bool" where
  "rx_run rs [] = list_ex nullable rs"
| "rx_run rs (c # cs) = rx_run (remdups (concat (map (pderiv c) rs))) cs"

definition rx_test :: "rx \<Rightarrow> string \<Rightarrow> bool" where
  "rx_test r s = rx_run [r] s"

text \<open>
  The language of a pattern, the reference for the test: concatenation for a sequence,
  union for an alternative, finite repetition for a star.
\<close>

inductive_set star :: "string set \<Rightarrow> string set" for L :: "string set" where
  star_nil: "[] \<in> star L"
| star_step: "u \<in> L \<Longrightarrow> v \<in> star L \<Longrightarrow> u @ v \<in> star L"

fun lang :: "rx \<Rightarrow> string set" where
  "lang Never = {}"
| "lang Eps = {[]}"
| "lang (Sym k) = {[c] | c. in_cls k c}"
| "lang (Seq r s) = {u @ v | u v. u \<in> lang r \<and> v \<in> lang s}"
| "lang (Alt r s) = lang r \<union> lang s"
| "lang (Star r) = star (lang r)"

text \<open>The quantifiers \<^verbatim>\<open>+\<close>, \<^verbatim>\<open>?\<close> and \<^verbatim>\<open>{n}\<close>, \<^verbatim>\<open>{2,3}\<close> written out.\<close>

definition Plus :: "rx \<Rightarrow> rx" where
  "Plus r = Seq r (Star r)"

definition Opt :: "rx \<Rightarrow> rx" where
  "Opt r = Alt r Eps"

fun Times :: "nat \<Rightarrow> rx \<Rightarrow> rx" where
  "Times 0 r = Eps"
| "Times (Suc n) r = Seq r (Times n r)"

text \<open>\<^verbatim>\<open>/^\w+([\.-]?\w+)*@\w+([\.-]?\w+)*(\.\w{2,3})+$/\<close>\<close>

definition emailRegex :: rx where
  "emailRegex =
     Seq (Plus (Sym WordChar))
    (Seq (Star (Seq (Opt (Sym (OneOf ''.-''))) (Plus (Sym WordChar))))
    (Seq (Sym (OneOf ''@''))
    (Seq (Plus (Sym WordChar))
    (Seq (Star (Seq (Opt (Sym (OneOf ''.-''))) (Plus (Sym WordChar))))
         (Plus (Seq (Sym (OneOf ''.''))
                    (Seq (Times 2 (Sym WordChar)) (Opt (Sym WordChar)))))))))"

text \<open>\<^verbatim>\<open>/^[0-9]{10}$/\<close>\<close>

definition phoneRegex :: rx where
  "phoneRegex = Times 10 (Sym DigitChar)"

subsection \<open>JavaScript values and coercions\<close>

text \<open>
  A property of \<^verbatim>\<open>req.body\<close> or \<^verbatim>\<open>req.query\<close> is \<open>None\<close> (\<^verbatim>\<open>undefined\<close>) or a string.
  \<open>falsy\<close> is \<^verbatim>\<open>!v\<close>, \<open>to_str\<close> is the coercion to a string where the code
  concatenates, indexes or tests a pattern.
\<close>

definition falsy :: "string option \<Rightarrow> bool" where
  "falsy v = (v = None \<or> v = Some [])"

fun to_str :: "string option \<Rightarrow> string" where
  "to_str None = ''undefined''"
| "to_str (Some s) = s"

text \<open>
  \<^verbatim>\<open>trim\<close> and \<^verbatim>\<open>toLowerCase\<close> on the ASCII range: the white space characters and the
  letters of a byte string.
\<close>

definition is_space :: "char \<Rightarrow> bool" where
  "is_space c = (c \<in> set [CHR '' '', CHR 0x09, CHR 0x0A, CHR 0x0B, CHR 0x0C, CHR 0x0D])"

definition trim :: "string \<Rightarrow> string" where
  "trim s = rev (dropWhile is_space (rev (dropWhile is_space s)))"

definition toLowerCase :: "string \<Rightarrow> string" where
  "toLowerCase s =
     map (\<lambda>c. case map_of (zip ''ABCDEFGHIJKLMNOPQRSTUVWXYZ'' ''abcdefghijklmnopqrstuvwxyz'') c of
                 None \<Rightarrow> c | Some l \<Rightarrow> l) s"

text \<open>
  The value of a property read: a number, \<^verbatim>\<open>undefined\<close>, \<^verbatim>\<open>NaN\<close>, or a function or
  object (which is truthy and is \<^verbatim>\<open>NaN\<close> as a number).
\<close>

datatype jsval = JUndefined | JNumber int | JNaN | JObject

fun truthy :: "jsval \<Rightarrow> bool" where
  "truthy JUndefined = False"
| "truthy (JNumber n) = (n \<noteq> 0)"
| "truthy JNaN = False"
| "truthy JObject = True"

fun js_times :: "jsval \<Rightarrow> int \<Rightarrow> jsval" where
  "js_times (JNumber n) k = JNumber (n * k)"
| "js_times v k = JNaN"

text \<open>
  \<^verbatim>\<open>testPrices[key]\<close>: the object literal of \<^verbatim>\<open>bookAppointment\<close>. A property read on an
  object literal that has no such own property finds the members every object inherits.
\<close>

definition price_table :: "(string \<times> int) list" where
  "price_table =
     [(''xray'', 1000), (''ctscan'', 5000), (''mri'', 8000), (''ultrasound'', 2000),
      (''mammogram'', 3000), (''dexa'', 2500), (''pet'', 15000), (''angiography'', 12000),
      (''fluoroscopy'', 4000), (''nuclear'', 10000)]"

definition inherited_members :: "string list" where
  "inherited_members =
     [''constructor'', ''__defineGetter__'', ''__defineSetter__'', ''hasOwnProperty'',
      ''__lookupGetter__'', ''__lookupSetter__'', ''isPrototypeOf'', ''propertyIsEnumerable'',
      ''toString'', ''valueOf'', ''__proto__'', ''toLocaleString'']"

definition testPrices :: "string \<Rightarrow> jsval" where
  "testPrices key =
     (case map_of price_table key of
        Some p \<Rightarrow> JNumber p
      | None \<Rightarrow> if key \<in> set inherited_members then JObject else JUndefined)"

text \<open>
  \<^verbatim>\<open>parseInt(v)\<close> with no radix: leading white space, a sign, \<^verbatim>\<open>0x\<close> for base 16, then
  the longest run of digits; \<open>None\<close> is \<^verbatim>\<open>NaN\<close>. The result here is the exact integer
  of the digits. The code's result is the nearest double, which is that integer up to
  \<open>2^53 - 1\<close>; beyond it the two differ, and the properties that read a parsed number
  are stated for the exact range only.
\<close>

definition digit_value :: "char \<Rightarrow> nat option" where
  "digit_value c =
     map_of (zip ''0123456789abcdef'' [0 ..< 16] @ zip ''ABCDEF'' [10 ..< 16]) c"

definition is_radix_digit :: "nat \<Rightarrow> char \<Rightarrow> bool" where
  "is_radix_digit radix c = (case digit_value c of None \<Rightarrow> False | Some v \<Rightarrow> v < radix)"

definition digits_value :: "nat \<Rightarrow> string \<Rightarrow> nat" where
  "digits_value radix ds =
     foldl (\<lambda>a c. a * radix + (case digit_value c of None \<Rightarrow> 0 | Some v \<Rightarrow> v)) 0 ds"

definition parseInt :: "string option \<Rightarrow> int option" where
  "parseInt v =
     (let s = dropWhile is_space (to_str v);
          neg = (take 1 s = ''-'');
          s1 = (if take 1 s = ''-'' \<or> take 1 s = ''+'' then drop 1 s else s);
          hex = (take 2 s1 = ''0x'' \<or> take 2 s1 = ''0X'');
          radix = (if hex then 16 else 10);
          s2 = (if hex then drop 2 s1 else s1);
          ds = takeWhile (is_radix_digit radix) s2
      in if ds = [] then None
         else Some ((if neg then - 1 else 1) * int (digits_value radix ds)))"

text \<open>\<^verbatim>\<open>parseInt(v) || d\<close>: \<^verbatim>\<open>NaN\<close> and \<open>0\<close> are falsy.\<close>

definition or_default :: "int option \<Rightarrow> int \<Rightarrow> int" where
  "or_default v d = (case v of None \<Rightarrow> d | Some n \<Rightarrow> if n = 0 then d else n)"

text \<open>
  A \<^verbatim>\<open>Date\<close> is its time value in milliseconds, \<open>None\<close> for an invalid date.
  \<^verbatim>\<open>a < b\<close> on dates compares the time values; a comparison with \<^verbatim>\<open>NaN\<close> is false.
\<close>

definition date_less :: "int option \<Rightarrow> int \<Rightarrow> bool" where
  "date_less d n = (case d of None \<Rightarrow> False | Some t \<Rightarrow> t < n)"

text \<open>The decimal text of a number, for \<^verbatim>\<open>"order_" + Date.now()\<close>.\<close>

fun decimal_nat :: "nat \<Rightarrow> string" where
  "decimal_nat n =
     (if n < 10 then [''0123456789'' ! n]
      else decimal_nat (n div 10) @ [''0123456789'' ! (n mod 10)])"

declare decimal_nat.simps [simp del]

definition decimal :: "int \<Rightarrow> string" where
  "decimal i = (if i < 0 then ''-'' @ decimal_nat (nat (- i)) else decimal_nat (nat i))"

subsection \<open>The appointment schema (models/Appointment.js)\<close>

datatype status = Pending | Confirmed | Cancelled

datatype paymentStatus = PaymentPending | PaymentCompleted

record appointment =
  oid :: nat
  name :: string
  email :: string
  phone :: string
  testType :: string
  appointmentDate :: int
  status :: status
  "notes" :: "string option"
  amount :: int
  orderId :: string
  paymentStatus :: paymentStatus
  paymentId :: "string option"

fun status_name :: "status \<Rightarrow> string" where
  "status_name Pending = ''pending''"
| "status_name Confirmed = ''confirmed''"
| "status_name Cancelled = ''cancelled''"

definition testType_enum :: "string list" where
  "testType_enum =
     [''xray'', ''ctscan'', ''mri'', ''ultrasound'', ''mammogram'', ''dexa'', ''pet'',
      ''angiography'', ''fluoroscopy'', ''nuclear'']"

text \<open>
  The arguments of \<^verbatim>\<open>new Appointment({...})\<close> in \<^verbatim>\<open>bookAppointment\<close>, before the
  schema has cast and validated them. Status and payment status are the literals
  \<^verbatim>\<open>"pending"\<close> there.
\<close>

record appointment_args =
  arg_name :: string
  arg_email :: string
  arg_phone :: string
  arg_testType :: string
  arg_appointmentDate :: "int option"
  arg_notes :: "string option"
  arg_amount :: jsval
  arg_orderId :: string

text \<open>
  The paths that fail the schema's validation on save: \<^verbatim>\<open>required\<close> (an empty string
  is missing), \<^verbatim>\<open>enum\<close>, \<^verbatim>\<open>maxLength\<close>, and the casts to \<^verbatim>\<open>Date\<close> and \<^verbatim>\<open>Number\<close>; the
  setters \<^verbatim>\<open>trim\<close> and \<^verbatim>\<open>lowercase\<close> run first.
\<close>

definition invalid_paths :: "appointment_args \<Rightarrow> string list" where
  "invalid_paths a =
     (if trim (arg_name a) = [] then [''name''] else []) @
     (if trim (arg_email a) = [] then [''email''] else []) @
     (if trim (arg_phone a) = [] then [''phone''] else []) @
     (if arg_testType a \<in> set testType_enum then [] else [''testType'']) @
     (if arg_appointmentDate a = None then [''appointmentDate''] else []) @
     (case arg_notes a of
        None \<Rightarrow> []
      | Some n \<Rightarrow> if length (trim n) \<le> 500 then [] else [''notes'']) @
     (case arg_amount a of JNumber n \<Rightarrow> [] | _ \<Rightarrow> [''amount'']) @
     (if arg_orderId a = [] then [''orderId''] else [])"

definition cast_appointment :: "nat \<Rightarrow> appointment_args \<Rightarrow> appointment" where
  "cast_appointment i a =
     \<lparr> oid = i,
       name = trim (arg_name a),
       email = toLowerCase (trim (arg_email a)),
       phone = trim (arg_phone a),
       testType = arg_testType a,
       appointmentDate = (case arg_appointmentDate a of None \<Rightarrow> 0 | Some t \<Rightarrow> t),
       status = Pending,
       notes = map_option trim (arg_notes a),
       amount = (case arg_amount a of JNumber n \<Rightarrow> n | _ \<Rightarrow> 0),
       orderId = arg_orderId a,
       paymentStatus = PaymentPending,
       paymentId = None \<rparr>"

subsection \<open>Collaborators: store, gateway, mail transport\<close>

text \<open>What a rejected promise or a \<^verbatim>\<open>throw\<close> carries into a \<^verbatim>\<open>catch\<close> block.\<close>

datatype exn =
    CastError string
  | ValidationError "string list"
  | DocumentNotFoundError
  | StoreError string
  | GatewayError string
  | Error string

datatype store_op = Find | CountDocuments | FindOne | FindById | Save | FindByIdAndDelete

record order_request =
  req_amount :: jsval
  req_currency :: string
  req_receipt :: string
  req_payment_capture :: int

record order =
  order_id :: string
  order_amount :: int
  order_currency :: string

text \<open>
  The two mail templates of the controller, by the values they interpolate; the markup is
  not spelled out.
\<close>

datatype html =
    ConfirmationHtml appointment "string option"
  | CancellationHtml appointment

record mail =
  mail_to :: string
  mail_subject :: string
  mail_html :: html

text \<open>
  The environment of one request: \<^verbatim>\<open>new Date()\<close> and \<^verbatim>\<open>Date.now()\<close>, the runtime's date
  parser and HMAC, \<^verbatim>\<open>process.env.RAZORPAY_KEY_SECRET\<close>, the gateway's answer to an order
  request (\<open>Inl\<close> a rejection), the transport's answer to a mail (\<open>Inl\<close> an error
  message, \<open>Inr\<close> the message id), a fault of the store on an operation, and the store's
  case-insensitive pattern search (\<open>None\<close> for a pattern it refuses).
\<close>

record env =
  now :: int
  date_now :: int
  parseDate :: "string \<Rightarrow> int option"
  key_secret :: string
  hmac_sha256_hex :: "string \<Rightarrow> string \<Rightarrow> string"
  orders_create :: "order_request \<Rightarrow> string + order"
  sendMail :: "mail \<Rightarrow> string + string"
  store_fault :: "store_op \<Rightarrow> string option"
  regex_i :: "string \<Rightarrow> (string \<Rightarrow> bool) option"

text \<open>
  The state the handlers act on: the documents of the collection in insertion order, the
  next fresh identifier, and the calls made to the collaborators so far.
\<close>

datatype event = StoreCall store_op | GatewayCall order_request | MailCall mail

record state =
  docs :: "appointment list"
  next_id :: nat
  calls :: "event list"

definition called :: "event \<Rightarrow> state \<Rightarrow> state" where
  "called ev s = s\<lparr>calls := calls s @ [ev]\<rparr>"

text \<open>
  \<^verbatim>\<open>Appointment.findOne({appointmentDate, testType, status: {$ne: "cancelled"}})\<close>; an
  invalid date does not cast.
\<close>

definition findOne_slot ::
  "env \<Rightarrow> int option \<Rightarrow> string \<Rightarrow> state \<Rightarrow> (exn + appointment option) \<times> state" where
  "findOne_slot e d tt s =
     (let s' = called (StoreCall FindOne) s in
      case d of
        None \<Rightarrow> (Inl (CastError ''appointmentDate''), s')
      | Some t \<Rightarrow>
          (case store_fault e FindOne of
             Some m \<Rightarrow> (Inl (StoreError m), s')
           | None \<Rightarrow>
               (Inr (find (\<lambda>a. appointmentDate a = t \<and> testType a = tt \<and> status a \<noteq> Cancelled)
                          (docs s)), s')))"

text \<open>\<^verbatim>\<open>Appointment.findOne({ orderId })\<close>; no document has an absent order id.\<close>

definition findOne_orderId ::
  "env \<Rightarrow> string option \<Rightarrow> state \<Rightarrow> (exn + appointment option) \<times> state" where
  "findOne_orderId e k s =
     (let s' = called (StoreCall FindOne) s in
      case store_fault e FindOne of
        Some m \<Rightarrow> (Inl (StoreError m), s')
      | None \<Rightarrow> (Inr (find (\<lambda>a. Some (orderId a) = k) (docs s)), s'))"

text \<open>\<^verbatim>\<open>Appointment.findById(id)\<close>, for a well-formed identifier.\<close>

definition findById :: "env \<Rightarrow> nat \<Rightarrow> state \<Rightarrow> (exn + appointment option) \<times> state" where
  "findById e i s =
     (let s' = called (StoreCall FindById) s in
      case store_fault e FindById of
        Some m \<Rightarrow> (Inl (StoreError m), s')
      | None \<Rightarrow> (Inr (find (\<lambda>a. oid a = i) (docs s)), s'))"

text \<open>
  \<^verbatim>\<open>new Appointment(args).save()\<close>: the document takes a fresh identifier, is validated
  against the schema and inserted.
\<close>

definition save_new :: "env \<Rightarrow> appointment_args \<Rightarrow> state \<Rightarrow> (exn + appointment) \<times> state" where
  "save_new e a s =
     (let i = next_id s;
          s' = called (StoreCall Save) (s\<lparr>next_id := Suc i\<rparr>) in
      if invalid_paths a \<noteq> [] then (Inl (ValidationError (invalid_paths a)), s')
      else case store_fault e Save of
             Some m \<Rightarrow> (Inl (StoreError m), s')
           | None \<Rightarrow> (Inr (cast_appointment i a),
                      s'\<lparr>docs := docs s' @ [cast_appointment i a]\<rparr>))"

text \<open>
  \<^verbatim>\<open>appointment.save()\<close> on a document that was read from the store: the first document
  with its identifier is replaced.
\<close>

fun replace_doc :: "appointment \<Rightarrow> appointment list \<Rightarrow> appointment list" where
  "replace_doc a [] = []"
| "replace_doc a (d # ds) = (if oid d = oid a then a # ds else d # replace_doc a ds)"

definition save_existing :: "env \<Rightarrow> appointment \<Rightarrow> state \<Rightarrow> (exn + appointment) \<times> state" where
  "save_existing e a s =
     (let s' = called (StoreCall Save) s in
      case store_fault e Save of
        Some m \<Rightarrow> (Inl (StoreError m), s')
      | None \<Rightarrow>
          if list_ex (\<lambda>d. oid d = oid a) (docs s)
          then (Inr a, s'\<lparr>docs := replace_doc a (docs s')\<rparr>)
          else (Inl DocumentNotFoundError, s'))"

text \<open>\<^verbatim>\<open>Appointment.findByIdAndDelete(id)\<close>: the first document with the identifier goes.\<close>

fun delete_doc :: "nat \<Rightarrow> appointment list \<Rightarrow> appointment list" where
  "delete_doc i [] = []"
| "delete_doc i (d # ds) = (if oid d = i then ds else d # delete_doc i ds)"

definition findByIdAndDelete :: "env \<Rightarrow> nat \<Rightarrow> state \<Rightarrow> (exn + unit) \<times> state" where
  "findByIdAndDelete e i s =
     (let s' = called (StoreCall FindByIdAndDelete) s in
      case store_fault e FindByIdAndDelete of
        Some m \<Rightarrow> (Inl (StoreError m), s')
      | None \<Rightarrow> (Inr (), s'\<lparr>docs := delete_doc i (docs s')\<rparr>))"

text \<open>\<^verbatim>\<open>razorpay.orders.create(request)\<close>\<close>

definition create_order :: "env \<Rightarrow> order_request \<Rightarrow> state \<Rightarrow> (exn + order) \<times> state" where
  "create_order e r s =
     (let s' = called (GatewayCall r) s in
      case orders_create e r of
        Inl m \<Rightarrow> (Inl (GatewayError m), s')
      | Inr ord \<Rightarrow> (Inr ord, s'))"

text \<open>
  \<^verbatim>\<open>sendEmail\<close> of utils/sendEmail.js: the transport's error is logged and thrown again
  as \<^verbatim>\<open>new Error(`Failed to send email: ${error.message}`)\<close>.
\<close>

definition sendEmail :: "env \<Rightarrow> mail \<Rightarrow> state \<Rightarrow> (exn + string) \<times> state" where
  "sendEmail e m s =
     (let s' = called (MailCall m) s in
      case sendMail e m of
        Inl msg \<Rightarrow> (Inl (Error (''Failed to send email: '' @ msg)), s')
      | Inr info \<Rightarrow> (Inr info, s'))"

subsection \<open>Responses\<close>

record order_summary =
  sum_id :: string
  sum_amount :: int
  sum_currency :: string

text \<open>
  The JSON bodies: \<^verbatim>\<open>{message: "..."}\<close> with a literal text, \<^verbatim>\<open>{message: error.message}\<close>
  of a caught error, a document, the booking result, and a page of the listing
  (\<^verbatim>\<open>appointments\<close>, \<^verbatim>\<open>currentPage\<close>, \<^verbatim>\<open>totalPages\<close>, \<^verbatim>\<open>totalAppointments\<close>).
\<close>

datatype body =
    Message string
  | Failure exn
  | Document appointment
  | Booked appointment order_summary
  | Page "appointment list" int int int

datatype response = Res (code: nat) (payload: body)

subsection \<open>getAppointments\<close>

record list_query =
  q_status :: "string option"
  q_testType :: "string option"
  q_search :: "string option"
  q_startDate :: "string option"
  q_endDate :: "string option"
  q_page :: "string option"
  q_limit :: "string option"

text \<open>
  The filter object the handler builds: a key is present (\<open>Some\<close>) when the handler sets
  it. The date range holds the two \<^verbatim>\<open>new Date(...)\<close> values.
\<close>

record query_filter =
  flt_status :: "string option"
  flt_testType :: "string option"
  flt_search :: "string option"
  flt_range :: "(int option \<times> int option) option"

definition build_filter :: "env \<Rightarrow> list_query \<Rightarrow> query_filter" where
  "build_filter e q =
     \<lparr> flt_status = (if falsy (q_status q) then None else q_status q),
       flt_testType = (if falsy (q_testType q) then None else q_testType q),
       flt_search = (if falsy (q_search q) then None else q_search q),
       flt_range =
         (if \<not> falsy (q_startDate q) \<and> \<not> falsy (q_endDate q)
          then Some (parseDate e (to_str (q_startDate q)), parseDate e (to_str (q_endDate q)))
          else None) \<rparr>"

text \<open>
  The store's reading of a filter: the predicate on documents, or the error of a date that
  does not cast or of a search pattern the store refuses.
\<close>

definition cast_filter :: "env \<Rightarrow> query_filter \<Rightarrow> exn + (appointment \<Rightarrow> bool)" where
  "cast_filter e f =
     (case (case flt_range f of
              None \<Rightarrow> Inr (\<lambda>a. True)
            | Some (Some lo, Some hi) \<Rightarrow>
                Inr (\<lambda>a. lo \<le> appointmentDate a \<and> appointmentDate a \<le> hi)
            | Some _ \<Rightarrow> Inl (CastError ''appointmentDate'')) of
        Inl x \<Rightarrow> Inl x
      | Inr in_range \<Rightarrow>
          (case (case flt_search f of
                   None \<Rightarrow> Inr (\<lambda>a. True)
                 | Some pat \<Rightarrow>
                     (case regex_i e pat of
                        None \<Rightarrow> Inl (StoreError ''invalid regular expression'')
                      | Some m \<Rightarrow> Inr (\<lambda>a. m (name a) \<or> m (email a) \<or> m (phone a)))) of
             Inl x \<Rightarrow> Inl x
           | Inr found \<Rightarrow>
               Inr (\<lambda>a. (case flt_status f of None \<Rightarrow> True | Some st \<Rightarrow> status_name (status a) = st)
                       \<and> (case flt_testType f of None \<Rightarrow> True | Some tt \<Rightarrow> testType a = tt)
                       \<and> found a \<and> in_range a)))"

text \<open>
  \<^verbatim>\<open>Appointment.find(filter).sort({appointmentDate: "asc"}).skip(skip).limit(limit)\<close>. The
  store refuses a negative skip and reads a negative limit as its absolute value. The
  store leaves the order of documents with equal dates open; here they keep the order in
  which they were stored.
\<close>

definition store_find ::
  "env \<Rightarrow> query_filter \<Rightarrow> int \<Rightarrow> int \<Rightarrow> state \<Rightarrow> (exn + appointment list) \<times> state" where
  "store_find e f skip limit s =
     (let s' = called (StoreCall Find) s in
      case cast_filter e f of
        Inl x \<Rightarrow> (Inl x, s')
      | Inr p \<Rightarrow>
          if skip < 0 then (Inl (StoreError ''negative skip''), s')
          else (case store_fault e Find of
                  Some m \<Rightarrow> (Inl (StoreError m), s')
                | None \<Rightarrow>
                    (Inr (take (nat (abs limit))
                            (drop (nat skip) (sort_key appointmentDate (filter p (docs s))))),
                     s')))"

definition countDocuments :: "env \<Rightarrow> query_filter \<Rightarrow> state \<Rightarrow> (exn + int) \<times> state" where
  "countDocuments e f s =
     (let s' = called (StoreCall CountDocuments) s in
      case cast_filter e f of
        Inl x \<Rightarrow> (Inl x, s')
      | Inr p \<Rightarrow>
          (case store_fault e CountDocuments of
             Some m \<Rightarrow> (Inl (StoreError m), s')
           | None \<Rightarrow> (Inr (int (length (filter p (docs s)))), s')))"

text \<open>\<^verbatim>\<open>Math.ceil(total / limit)\<close>, the quotient taken exactly.\<close>

definition ceil_div :: "int \<Rightarrow> int \<Rightarrow> int" where
  "ceil_div n limit = \<lceil>rat_of_int n / rat_of_int limit\<rceil>"

definition getAppointments :: "env \<Rightarrow> list_query \<Rightarrow> state \<Rightarrow> response \<times> state" where
  "getAppointments e q s =
     (let page = or_default (parseInt (q_page q)) 1;
          limit = or_default (parseInt (q_limit q)) 10;
          skip = (page - 1) * limit;
          flt = build_filter e q in
      case store_find e flt skip limit s of
        (Inl x, s1) \<Rightarrow> (Res 500 (Failure x), s1)
      | (Inr appointments, s1) \<Rightarrow>
          (case countDocuments e flt s1 of
             (Inl x, s2) \<Rightarrow> (Res 500 (Failure x), s2)
           | (Inr totalAppointments, s2) \<Rightarrow>
               (Res 200 (Page appointments page (ceil_div totalAppointments limit)
                           totalAppointments), s2)))"

subsection \<open>getAppointment\<close>

definition getAppointment :: "env \<Rightarrow> nat \<Rightarrow> state \<Rightarrow> response \<times> state" where
  "getAppointment e i s =
     (case findById e i s of
        (Inl x, s1) \<Rightarrow> (Res 500 (Failure x), s1)
      | (Inr None, s1) \<Rightarrow> (Res 404 (Message ''Appointment not found''), s1)
      | (Inr (Some a), s1) \<Rightarrow> (Res 200 (Document a), s1))"

subsection \<open>bookAppointment\<close>

text \<open>
  The request body. \<open>body_amount\<close> stands for an amount a client may send; the handler
  never reads it.
\<close>

record book_body =
  body_name :: "string option"
  body_email :: "string option"
  body_phone :: "string option"
  body_testType :: "string option"
  body_appointmentDate :: "string option"
  body_notes :: "string option"
  body_amount :: "string option"

definition requiredFields :: "book_body \<Rightarrow> (string \<times> string option) list" where
  "requiredFields b =
     [(''name'', body_name b), (''email'', body_email b), (''phone'', body_phone b),
      (''testType'', body_testType b), (''appointmentDate'', body_appointmentDate b)]"

text \<open>The argument of \<^verbatim>\<open>razorpay.orders.create\<close>: the amount in paise.\<close>

definition order_request_for :: "env \<Rightarrow> jsval \<Rightarrow> order_request" where
  "order_request_for e amt =
     \<lparr> req_amount = js_times amt 100, req_currency = ''INR'',
       req_receipt = ''order_'' @ decimal (date_now e), req_payment_capture = 1 \<rparr>"

text \<open>The argument of \<^verbatim>\<open>new Appointment\<close>.\<close>

definition appointment_args_for ::
  "book_body \<Rightarrow> int option \<Rightarrow> jsval \<Rightarrow> order \<Rightarrow> appointment_args" where
  "appointment_args_for b date amt ord =
     \<lparr> arg_name = trim (to_str (body_name b)),
       arg_email = trim (toLowerCase (to_str (body_email b))),
       arg_phone = trim (to_str (body_phone b)),
       arg_testType = to_str (body_testType b),
       arg_appointmentDate = date,
       arg_notes = map_option trim (body_notes b),
       arg_amount = amt,
       arg_orderId = order_id ord \<rparr>"

definition bookAppointment :: "env \<Rightarrow> book_body \<Rightarrow> state \<Rightarrow> response \<times> state" where
  "bookAppointment e b s =
     (case find (\<lambda>(field, v). falsy v) (requiredFields b) of
        Some (field, v) \<Rightarrow> (Res 400 (Message (field @ '' is required'')), s)
      | None \<Rightarrow>
     if \<not> rx_test emailRegex (to_str (body_email b))
     then (Res 400 (Message ''Please enter a valid email''), s)
     else if \<not> rx_test phoneRegex (to_str (body_phone b))
     then (Res 400 (Message ''Please enter a valid 10-digit phone number''), s)
     else if \<not> truthy (testPrices (to_str (body_testType b)))
     then (Res 400 (Message ''Invalid test type''), s)
     else
       let amount = testPrices (to_str (body_testType b));
           appointmentDate = parseDate e (to_str (body_appointmentDate b)) in
       if date_less appointmentDate (now e)
       then (Res 400 (Message ''Appointment date cannot be in the past''), s)
       else
         (case findOne_slot e appointmentDate (to_str (body_testType b)) s of
            (Inl x, s1) \<Rightarrow> (Res 400 (Failure x), s1)
          | (Inr (Some conflictingAppointment), s1) \<Rightarrow>
              (Res 400 (Message ''This time slot is already booked''), s1)
          | (Inr None, s1) \<Rightarrow>
              (case create_order e (order_request_for e amount) s1 of
                 (Inl x, s2) \<Rightarrow> (Res 400 (Failure x), s2)
               | (Inr ord, s2) \<Rightarrow>
                   (case save_new e (appointment_args_for b appointmentDate amount ord) s2 of
                      (Inl x, s3) \<Rightarrow> (Res 400 (Failure x), s3)
                    | (Inr savedAppointment, s3) \<Rightarrow>
                        (Res 201
                           (Booked savedAppointment
                              \<lparr> sum_id = order_id ord, sum_amount = order_amount ord,
                                sum_currency = order_currency ord \<rparr>),
                         s3)))))"

subsection \<open>verifyPayment\<close>

record verify_body =
  body_orderId :: "string option"
  body_paymentId :: "string option"
  body_signature :: "string option"

definition generatedSignature :: "env \<Rightarrow> verify_body \<Rightarrow> string" where
  "generatedSignature e b =
     hmac_sha256_hex e (key_secret e)
       (to_str (body_orderId b) @ ''|'' @ to_str (body_paymentId b))"

text \<open>The confirmation mail: recipient, subject and template.\<close>

definition confirmation_mail :: "appointment \<Rightarrow> string option \<Rightarrow> mail" where
  "confirmation_mail a pid =
     \<lparr> mail_to = email a,
       mail_subject = ''Appointment Confirmation - Payment Received'',
       mail_html = ConfirmationHtml a pid \<rparr>"

definition verifyPayment :: "env \<Rightarrow> verify_body \<Rightarrow> state \<Rightarrow> response \<times> state" where
  "verifyPayment e b s =
     (if Some (generatedSignature e b) \<noteq> body_signature b
      then (Res 400 (Message ''Invalid payment signature''), s)
      else
        (case findOne_orderId e (body_orderId b) s of
           (Inl x, s1) \<Rightarrow> (Res 500 (Failure x), s1)
         | (Inr None, s1) \<Rightarrow> (Res 404 (Message ''Appointment not found''), s1)
         | (Inr (Some found), s1) \<Rightarrow>
             (let appointment =
                    found\<lparr> status := Confirmed, paymentStatus := PaymentCompleted,
                           paymentId := body_paymentId b \<rparr> in
              case save_existing e appointment s1 of
                (Inl x, s2) \<Rightarrow> (Res 500 (Failure x), s2)
              | (Inr confirmedAppointment, s2) \<Rightarrow>
                  (case sendEmail e (confirmation_mail appointment (body_paymentId b)) s2 of
                     (Inl x, s3) \<Rightarrow> (Res 500 (Failure x), s3)
                   | (Inr info, s3) \<Rightarrow> (Res 200 (Document confirmedAppointment), s3)))))"

subsection \<open>cancelAppointment and deleteAppointment\<close>

definition cancellation_mail :: "appointment \<Rightarrow> mail" where
  "cancellation_mail a =
     \<lparr> mail_to = email a,
       mail_subject = ''Appointment Cancellation'',
       mail_html = CancellationHtml a \<rparr>"

definition cancelAppointment :: "env \<Rightarrow> nat \<Rightarrow> state \<Rightarrow> response \<times> state" where
  "cancelAppointment e i s =
     (case findById e i s of
        (Inl x, s1) \<Rightarrow> (Res 500 (Failure x), s1)
      | (Inr None, s1) \<Rightarrow> (Res 404 (Message ''Appointment not found''), s1)
      | (Inr (Some found), s1) \<Rightarrow>
          (let appointment = found\<lparr> status := Cancelled \<rparr> in
           case save_existing e appointment s1 of
             (Inl x, s2) \<Rightarrow> (Res 500 (Failure x), s2)
           | (Inr updatedAppointment, s2) \<Rightarrow>
               (case sendEmail e (cancellation_mail appointment) s2 of
                  (Inl x, s3) \<Rightarrow> (Res 500 (Failure x), s3)
                | (Inr info, s3) \<Rightarrow> (Res 200 (Document updatedAppointment), s3))))"

definition deleteAppointment :: "env \<Rightarrow> nat \<Rightarrow> state \<Rightarrow> response \<times> state" where
  "deleteAppointment e i s =
     (case findById e i s of
        (Inl x, s1) \<Rightarrow> (Res 500 (Failure x), s1)
      | (Inr None, s1) \<Rightarrow> (Res 404 (Message ''Appointment not found''), s1)
      | (Inr (Some found), s1) \<Rightarrow>
          (case findByIdAndDelete e i s1 of
             (Inl x, s2) \<Rightarrow> (Res 500 (Failure x), s2)
           | (Inr u, s2) \<Rightarrow> (Res 200 (Message ''Appointment deleted successfully''), s2)))"

section \<open>Vocabulary of the properties\<close>

text \<open>
  A booking request passes the field, email, phone and test-type checks, in the handler's
  order and with the handler's own tests.
\<close>

definition passes_checks :: "book_body \<Rightarrow> bool" where
  "passes_checks b =
     (find (\<lambda>(field, v). falsy v) (requiredFields b) = None
      \<and> rx_test emailRegex (to_str (body_email b))
      \<and> rx_test phoneRegex (to_str (body_phone b))
      \<and> truthy (testPrices (to_str (body_testType b))))"

text \<open>\<^verbatim>\<open>new Date(req.body.appointmentDate)\<close>\<close>

definition date_of :: "env \<Rightarrow> book_body \<Rightarrow> int option" where
  "date_of e b = parseDate e (to_str (body_appointmentDate b))"

definition past_date_response :: response where
  "past_date_response = Res 400 (Message ''Appointment date cannot be in the past'')"





text \<open>
  The supplied signature is the hex HMAC-SHA256, under the gateway secret, of
  \<^verbatim>\<open>orderId + "|" + paymentId\<close>.
\<close>

definition valid_signature :: "env \<Rightarrow> verify_body \<Rightarrow> bool" where
  "valid_signature e b =
     (body_signature b =
        Some (hmac_sha256_hex e (key_secret e)
                (to_str (body_orderId b) @ ''|'' @ to_str (body_paymentId b))))"

text \<open>The appointment the store holds for an order id, and for an identifier.\<close>

definition stored_by_order :: "verify_body \<Rightarrow> state \<Rightarrow> appointment option" where
  "stored_by_order b s = find (\<lambda>a. Some (orderId a) = body_orderId b) (docs s)"

definition stored_by_id :: "nat \<Rightarrow> state \<Rightarrow> appointment option" where
  "stored_by_id i s = find (\<lambda>a. oid a = i) (docs s)"

text \<open>The three assignments of \<^verbatim>\<open>verifyPayment\<close>.\<close>

definition confirmed_by :: "verify_body \<Rightarrow> appointment \<Rightarrow> appointment" where
  "confirmed_by b a =
     a\<lparr> status := Confirmed, paymentStatus := PaymentCompleted, paymentId := body_paymentId b \<rparr>"

text \<open>
  The identifiers of the stored documents were issued before the next fresh one, as they
  are in every state the handlers can reach from the empty store.
\<close>

definition ids_fresh :: "state \<Rightarrow> bool" where
  "ids_fresh s = list_all (\<lambda>d. oid d < next_id s) (docs s)"








section \<open>Sample requests, environments and stores\<close>

text \<open>
  An environment in which every collaborator answers: the clock stands at 1000 ms, the
  date parser knows four instants, the gateway issues the order \<^verbatim>\<open>order_A\<close>, and the
  HMAC is replaced by concatenation (the handlers only compare its result).
\<close>

definition sample_env :: env where
  "sample_env =
     \<lparr> now = 1000, date_now = 1001,
       parseDate = map_of [(''2030-01-01T10:00:00.000Z'', 1893492000000),
                           (''1970-01-01T00:00:01.000Z'', 1000),
                           (''1970-01-01T00:00:00.000Z'', 0),
                           (''2031-01-01T10:00:00.000Z'', 1925028000000)],
       key_secret = ''secret'',
       hmac_sha256_hex = (\<lambda>k m. k @ m),
       orders_create =
         (\<lambda>r. Inr \<lparr> order_id = ''order_A'',
                    order_amount = (case req_amount r of JNumber n \<Rightarrow> n | _ \<Rightarrow> 0),
                    order_currency = req_currency r \<rparr>),
       sendMail = (\<lambda>m. Inr ''message-id''),
       store_fault = (\<lambda>op. None),
       regex_i = (\<lambda>p. Some (\<lambda>s. True)) \<rparr>"

definition sample_body :: book_body where
  "sample_body =
     \<lparr> body_name = Some ''Asha Rao'', body_email = Some ''user@example.com'',
       body_phone = Some ''9876543210'', body_testType = Some ''xray'',
       body_appointmentDate = Some ''2030-01-01T10:00:00.000Z'', body_notes = None,
       body_amount = Some ''1'' \<rparr>"

definition museum_body :: book_body where
  "museum_body = sample_body\<lparr>body_email := Some ''user@example.museum''\<rparr>"

definition past_body :: book_body where
  "past_body = sample_body\<lparr>body_appointmentDate := Some ''1970-01-01T00:00:00.000Z''\<rparr>"

definition present_body :: book_body where
  "present_body = sample_body\<lparr>body_appointmentDate := Some ''1970-01-01T00:00:01.000Z''\<rparr>"

definition empty_state :: state where
  "empty_state = \<lparr> docs = [], next_id = 0, calls = [] \<rparr>"

definition stored_appointment :: appointment where
  "stored_appointment =
     \<lparr> oid = 0, name = ''Asha Rao'', email = ''user@example.com'', phone = ''9876543210'',
       testType = ''xray'', appointmentDate = 1893492000000, status = Pending, notes = None,
       amount = 1000, orderId = ''order_A'', paymentStatus = PaymentPending,
       paymentId = None \<rparr>"

definition one_doc_state :: state where
  "one_doc_state = \<lparr> docs = [stored_appointment], next_id = 1, calls = [] \<rparr>"

definition sample_verify :: verify_body where
  "sample_verify =
     \<lparr> body_orderId = Some ''order_A'', body_paymentId = Some ''pay_1'',
       body_signature = Some ''secretorder_A|pay_1'' \<rparr>"

definition sample_query :: list_query where
  "sample_query =
     \<lparr> q_status = None, q_testType = None, q_search = None,
       q_startDate = Some ''2031-01-01T10:00:00.000Z'', q_endDate = None,
       q_page = None, q_limit = None \<rparr>"

definition constructor_body :: book_body where
  "constructor_body = sample_body\<lparr>body_testType := Some ''constructor''\<rparr>"



definition mail_down_env :: env where
  "mail_down_env = sample_env\<lparr>sendMail := (\<lambda>m. Inl ''connection refused'')\<rparr>"









section \<open>Properties\<close>

subsection \<open>Evaluation of the samples\<close>

lemma email_com: "rx_test emailRegex ''user@example.com''"
  by code_simp

lemma email_museum: "\<not> rx_test emailRegex ''user@example.museum''"
  by code_simp

lemma phone_sample: "rx_test phoneRegex ''9876543210''"
  by code_simp

lemma sample_passes_any_date:
  "passes_checks (sample_body\<lparr>body_appointmentDate := Some (x # xs)\<rparr>)"
  by (simp add: passes_checks_def sample_body_def requiredFields_def falsy_def
      email_com phone_sample testPrices_def price_table_def)


lemma past_passes: "passes_checks past_body"
  by (simp add: past_body_def sample_passes_any_date)

lemma present_passes: "passes_checks present_body"
  by (simp add: present_body_def sample_passes_any_date)

lemma sample_booked:
  "bookAppointment sample_env sample_body empty_state =
     (Res 201 (Booked stored_appointment
                 \<lparr> sum_id = ''order_A'', sum_amount = 100000, sum_currency = ''INR'' \<rparr>),
      \<lparr> docs = [stored_appointment], next_id = 1,
        calls = [StoreCall FindOne,
                 GatewayCall \<lparr> req_amount = JNumber 100000, req_currency = ''INR'',
                               req_receipt = ''order_1001'', req_payment_capture = 1 \<rparr>,
                 StoreCall Save] \<rparr>)"
  by code_simp

lemma parseInt_undefined: "parseInt None = None"
  by code_simp

lemma ceil_div_eq: "ceil_div t n = - ((- t) div n)"
  by (simp add: ceil_div_def ceiling_divide_eq_div)

subsection \<open>The paths of bookAppointment\<close>

lemma book_unchecked:
  "\<not> passes_checks b \<Longrightarrow> \<exists>m. bookAppointment e b s = (Res 400 (Message m), s)"
  by (auto simp add: passes_checks_def bookAppointment_def split: option.splits)

lemma book_checked:
  "passes_checks b \<Longrightarrow>
   bookAppointment e b s =
     (let amount = testPrices (to_str (body_testType b));
          appointmentDate = date_of e b in
       if date_less appointmentDate (now e)
       then (past_date_response, s)
       else
         (case findOne_slot e appointmentDate (to_str (body_testType b)) s of
            (Inl x, s1) \<Rightarrow> (Res 400 (Failure x), s1)
          | (Inr (Some conflictingAppointment), s1) \<Rightarrow>
              (Res 400 (Message ''This time slot is already booked''), s1)
          | (Inr None, s1) \<Rightarrow>
              (case create_order e (order_request_for e amount) s1 of
                 (Inl x, s2) \<Rightarrow> (Res 400 (Failure x), s2)
               | (Inr ord, s2) \<Rightarrow>
                   (case save_new e (appointment_args_for b appointmentDate amount ord) s2 of
                      (Inl x, s3) \<Rightarrow> (Res 400 (Failure x), s3)
                    | (Inr savedAppointment, s3) \<Rightarrow>
                        (Res 201
                           (Booked savedAppointment
                              \<lparr> sum_id = order_id ord, sum_amount = order_amount ord,
                                sum_currency = order_currency ord \<rparr>),
                         s3)))))"
  by (simp add: passes_checks_def bookAppointment_def date_of_def past_date_response_def Let_def)

subsection \<open>C4: the date check\<close>

text \<open>
  C4, as the code has it. For every booking request that passes the field, email, phone
  and test-type checks and whose appointment date parses to the instant \<open>d\<close>, the
  response is the date validation error exactly when \<open>d\<close> is strictly earlier than the
  current time, and then the state is untouched. The comparison of the handler is
  \<^verbatim>\<open>appointmentDate < now\<close>: a date equal to the current time passes the check.
\<close>

theorem date_check:
  assumes "passes_checks b" and "date_of e b = Some d"
  shows "(fst (bookAppointment e b s) = past_date_response \<longleftrightarrow> d < now e)
         \<and> (d < now e \<longrightarrow> snd (bookAppointment e b s) = s)"
  using assms
  by (auto simp add: book_checked date_less_def Let_def past_date_response_def findOne_slot_def
      create_order_def save_new_def called_def
      split: option.splits sum.splits prod.splits if_splits)

theorem date_check_witness:
  "passes_checks past_body \<and> date_of sample_env past_body = Some 0
   \<and> fst (bookAppointment sample_env past_body empty_state) = past_date_response
   \<and> snd (bookAppointment sample_env past_body empty_state) = empty_state"
proof -
  have d: "date_of sample_env past_body = Some 0"
    by (simp add: date_of_def past_body_def sample_body_def sample_env_def)
  have n: "(0::int) < now sample_env"
    by (simp add: sample_env_def)
  from date_check [OF past_passes d, of empty_state] n past_passes d show ?thesis
    by simp
qed

text \<open>
  The claim as written fails where the date equals the current time: the request passes
  the four checks, its date is not strictly later than now, and it is booked.
\<close>

theorem date_equal_to_now_accepted:
  "passes_checks present_body
   \<and> date_of sample_env present_body = Some (now sample_env)
   \<and> fst (bookAppointment sample_env present_body empty_state) \<noteq> past_date_response
   \<and> code (fst (bookAppointment sample_env present_body empty_state)) = 201"
proof -
  have d: "date_of sample_env present_body = Some (now sample_env)"
    by (simp add: date_of_def present_body_def sample_body_def sample_env_def)
  have "code (fst (bookAppointment sample_env present_body empty_state)) = 201"
    by code_simp
  with present_passes d show ?thesis
    by (auto simp add: past_date_response_def)
qed

text \<open>
  A date string that does not parse is not stopped by the date check either: the
  comparison with an invalid date is false, and the request goes on to the store.
\<close>

lemma unparseable_date_passes_date_check:
  assumes "passes_checks b" and "date_of e b = None"
  shows "fst (bookAppointment e b s) = Res 400 (Failure (CastError ''appointmentDate''))"
  using assms
  by (simp add: book_checked date_less_def Let_def findOne_slot_def)

subsection \<open>C7: a signature that does not match\<close>

text \<open>
  C7. For every payment confirmation whose supplied signature differs from the hex
  HMAC-SHA256, under the gateway secret, of \<^verbatim>\<open>orderId + "|" + paymentId\<close>, the response is
  the invalid-signature error with status 400 and the state is the one before the call:
  no document is changed and no call reaches the store (the record of calls is the same).
\<close>

theorem invalid_signature_rejected:
  assumes "body_signature b \<noteq>
             Some (hmac_sha256_hex e (key_secret e)
                     (to_str (body_orderId b) @ ''|'' @ to_str (body_paymentId b)))"
  shows "verifyPayment e b s = (Res 400 (Message ''Invalid payment signature''), s)"
  using assms by (auto simp add: verifyPayment_def generatedSignature_def)

theorem invalid_signature_rejected_witness:
  "verifyPayment sample_env (sample_verify\<lparr>body_signature := Some ''forged''\<rparr>) one_doc_state
     = (Res 400 (Message ''Invalid payment signature''), one_doc_state)"
  using invalid_signature_rejected
    [of "sample_verify\<lparr>body_signature := Some ''forged''\<rparr>" sample_env one_doc_state]
  by (simp add: sample_verify_def sample_env_def)

subsection \<open>C9: a date range with one bound\<close>

text \<open>
  C9. For every listing request in which exactly one of \<^verbatim>\<open>startDate\<close> and \<^verbatim>\<open>endDate\<close> is
  supplied, the response and the state are those of the same request with neither bound:
  the range filter is not applied.
\<close>

theorem one_sided_date_range_ignored:
  assumes "falsy (q_startDate q) \<noteq> falsy (q_endDate q)"
  shows "getAppointments e q s
           = getAppointments e (q\<lparr>q_startDate := None, q_endDate := None\<rparr>) s"
  using assms by (auto simp add: getAppointments_def build_filter_def falsy_def)

text \<open>
  At the sample: the only stored appointment lies before the supplied start date and is
  listed all the same.
\<close>

theorem one_sided_date_range_ignored_witness:
  "getAppointments sample_env sample_query one_doc_state
     = getAppointments sample_env (sample_query\<lparr>q_startDate := None, q_endDate := None\<rparr>)
         one_doc_state
   \<and> fst (getAppointments sample_env sample_query one_doc_state)
       = Res 200 (Page [stored_appointment] 1 1 1)"
proof -
  have h: "falsy (q_startDate sample_query) \<noteq> falsy (q_endDate sample_query)"
    by (simp add: sample_query_def falsy_def)
  have "fst (getAppointments sample_env (sample_query\<lparr>q_startDate := None, q_endDate := None\<rparr>)
               one_doc_state) = Res 200 (Page [stored_appointment] 1 1 1)"
    by (simp add: getAppointments_def parseInt_undefined or_default_def build_filter_def
        sample_query_def falsy_def store_find_def cast_filter_def sample_env_def called_def
        one_doc_state_def countDocuments_def ceil_div_eq)
  with one_sided_date_range_ignored [OF h, of sample_env one_doc_state] show ?thesis
    by simp
qed

subsection \<open>C10: an email whose last label is long\<close>

text \<open>
  C10. There is a booking request, well-formed in every other field, whose email ends in
  a label of more than three characters (\<^verbatim>\<open>user@example.museum\<close>) and which is rejected
  with the invalid-email error, whatever the environment and the store; the same request
  with \<^verbatim>\<open>user@example.com\<close> is booked.
\<close>

theorem long_final_label_rejected:
  "bookAppointment e museum_body s = (Res 400 (Message ''Please enter a valid email''), s)
   \<and> museum_body = sample_body\<lparr>body_email := Some ''user@example.museum''\<rparr>
   \<and> code (fst (bookAppointment sample_env sample_body empty_state)) = 201"
proof -
  have "bookAppointment e museum_body s = (Res 400 (Message ''Please enter a valid email''), s)"
    by (simp add: museum_body_def bookAppointment_def sample_body_def requiredFields_def
        falsy_def email_museum)
  then show ?thesis
    by (simp add: sample_booked museum_body_def)
qed

subsection \<open>C5: the amount comes from the price table\<close>

text \<open>
  A booking that succeeds stores and returns the price-table value of the supplied test
  type; no field of the request other than the test type enters the amount.
\<close>

lemma testPrices_number:
  "testPrices k = JNumber n \<Longrightarrow> map_of price_table k = Some n"
  by (auto simp add: testPrices_def split: option.splits if_splits)

lemma save_new_Inr:
  "save_new e a s = (Inr d, s') \<Longrightarrow>
     invalid_paths a = [] \<and> d = cast_appointment (next_id s) a \<and> docs s' = docs s @ [d]"
  by (auto simp add: save_new_def called_def Let_def split: if_splits option.splits)

lemma invalid_paths_amount:
  "invalid_paths a = [] \<Longrightarrow> \<exists>n. arg_amount a = JNumber n"
  by (cases "arg_amount a") (auto simp add: invalid_paths_def)

lemma booked_amount_from_table:
  assumes "bookAppointment e b s = (Res 201 bd, s')"
  shows "\<exists>a sm. bd = Booked a sm \<and> map_of price_table (to_str (body_testType b)) = Some (amount a)
           \<and> docs s' = docs s @ [a]"
proof -
  have p: "passes_checks b"
    using assms book_unchecked [of b e s] by auto
  from assms obtain s1 ord s2 a where
      sv: "save_new e (appointment_args_for b (date_of e b) (testPrices (to_str (body_testType b))) ord) s2 = (Inr a, s')"
      and bd: "bd = Booked a \<lparr> sum_id = order_id ord, sum_amount = order_amount ord,
                                sum_currency = order_currency ord \<rparr>"
      and d2: "docs s2 = docs s"
    by (auto simp add: book_checked [OF p] Let_def past_date_response_def findOne_slot_def
        create_order_def called_def
        split: if_splits prod.splits sum.splits option.splits)
  from save_new_Inr [OF sv] invalid_paths_amount
  obtain n where "testPrices (to_str (body_testType b)) = JNumber n"
    and "amount a = n" and "docs s' = docs s2 @ [a]"
    by (fastforce simp add: appointment_args_for_def cast_appointment_def)
  with bd d2 testPrices_number show ?thesis
    by auto
qed

text \<open>
  C5, where the code departs from it. The test-type check reads \<^verbatim>\<open>testPrices[testType]\<close>
  and tests the value for truthiness, so a name that every object inherits
  (\<^verbatim>\<open>constructor\<close>) passes as a test type: the request is not answered with
  \<^verbatim>\<open>Invalid test type\<close>, the gateway is asked for an order with the amount \<^verbatim>\<open>NaN\<close>, and
  only the schema stops the document.
\<close>

theorem inherited_key_reaches_gateway:
  "bookAppointment sample_env constructor_body empty_state =
     (Res 400 (Failure (ValidationError [''testType'', ''amount''])),
      \<lparr> docs = [], next_id = 1,
        calls = [StoreCall FindOne,
                 GatewayCall \<lparr> req_amount = JNaN, req_currency = ''INR'',
                               req_receipt = ''order_1001'', req_payment_capture = 1 \<rparr>,
                 StoreCall Save] \<rparr>)"
  by code_simp

subsection \<open>C3: failures of the booking\<close>










subsection \<open>The store\<close>

lemma find_replace_doc:
  "find (\<lambda>d. oid d = j) (replace_doc x ds) =
     (if oid x = j then (if list_ex (\<lambda>d. oid d = j) ds then Some x else None)
      else find (\<lambda>d. oid d = j) ds)"
  by (induction ds) auto


lemma find_Some_holds: "find P xs = Some x \<Longrightarrow> P x \<and> x \<in> set xs"
  by (induction xs) (auto split: if_splits)


lemma list_ex_oid: "x \<in> set xs \<Longrightarrow> list_ex (\<lambda>d. oid d = oid x) xs"
  by (auto simp add: list_ex_iff)

subsection \<open>The paths of verifyPayment\<close>

lemma verify_valid:
  assumes "valid_signature e b" and "store_fault e FindOne = None" and "store_fault e Save = None"
    and "stored_by_order b s = Some a"
  shows "verifyPayment e b s =
     (case sendEmail e (confirmation_mail (confirmed_by b a) (body_paymentId b))
             ((called (StoreCall Save) (called (StoreCall FindOne) s))
                \<lparr>docs := replace_doc (confirmed_by b a) (docs s)\<rparr>) of
        (Inl x, s3) \<Rightarrow> (Res 500 (Failure x), s3)
      | (Inr info, s3) \<Rightarrow> (Res 200 (Document (confirmed_by b a)), s3))"
proof -
  from assms(4) have "a \<in> set (docs s)"
    by (auto simp add: stored_by_order_def dest: find_Some_holds)
  then have "list_ex (\<lambda>d. oid d = oid a) (docs s)"
    by (rule list_ex_oid)
  with assms show ?thesis
    unfolding confirmed_by_def
    by (simp add: verifyPayment_def generatedSignature_def valid_signature_def
        findOne_orderId_def stored_by_order_def save_existing_def called_def Let_def)
qed

lemma verify_valid_docs:
  assumes "valid_signature e b" and "store_fault e FindOne = None" and "store_fault e Save = None"
    and "stored_by_order b s = Some a"
  shows "docs (snd (verifyPayment e b s)) = replace_doc (confirmed_by b a) (docs s)"
  by (simp add: verify_valid [OF assms] sendEmail_def called_def Let_def split: sum.splits)

lemma verify_valid_stored:
  assumes "valid_signature e b" and "store_fault e FindOne = None" and "store_fault e Save = None"
    and "stored_by_order b s = Some a"
  shows "stored_by_id (oid a) (snd (verifyPayment e b s)) = Some (confirmed_by b a)"
proof -
  from assms(4) have "a \<in> set (docs s)"
    by (auto simp add: stored_by_order_def dest: find_Some_holds)
  then have "list_ex (\<lambda>d. oid d = oid a) (docs s)"
    by (rule list_ex_oid)
  then show ?thesis
    by (simp add: stored_by_id_def verify_valid_docs [OF assms] find_replace_doc confirmed_by_def)
qed

subsection \<open>C2: the mail fails after the confirmation is stored\<close>

text \<open>
  C2, as the code has it. For every payment confirmation with a valid signature whose
  appointment exists and is persisted as confirmed, if the transport then fails to send,
  the response is an error with status 500 and the message
  \<^verbatim>\<open>Failed to send email: ...\<close> (\<^verbatim>\<open>sendEmail\<close> throws again and the handler awaits it
  inside its \<^verbatim>\<open>try\<close>); the confirmed state stays in the store.
\<close>

theorem mail_failure_fails_confirmation:
  assumes "valid_signature e b" and "store_fault e FindOne = None" and "store_fault e Save = None"
    and "stored_by_order b s = Some a"
    and "sendMail e (confirmation_mail (confirmed_by b a) (body_paymentId b)) = Inl msg"
  shows "fst (verifyPayment e b s) = Res 500 (Failure (Error (''Failed to send email: '' @ msg)))
         \<and> stored_by_id (oid a) (snd (verifyPayment e b s)) = Some (confirmed_by b a)
         \<and> status (confirmed_by b a) = Confirmed"
proof -
  have "fst (verifyPayment e b s) = Res 500 (Failure (Error (''Failed to send email: '' @ msg)))"
    using assms(5) by (simp add: verify_valid [OF assms(1-4)] sendEmail_def Let_def)
  moreover have "stored_by_id (oid a) (snd (verifyPayment e b s)) = Some (confirmed_by b a)"
    by (rule verify_valid_stored [OF assms(1-4)])
  ultimately show ?thesis
    by (simp add: confirmed_by_def)
qed

lemma sample_signature: "hmac_sha256_hex e = hmac_sha256_hex sample_env \<Longrightarrow>
    key_secret e = key_secret sample_env \<Longrightarrow> valid_signature e sample_verify"
  by (simp add: valid_signature_def sample_verify_def sample_env_def)

lemma sample_stored: "stored_by_order sample_verify one_doc_state = Some stored_appointment"
  by (simp add: stored_by_order_def sample_verify_def one_doc_state_def stored_appointment_def)

theorem mail_failure_fails_confirmation_witness:
  "fst (verifyPayment mail_down_env sample_verify one_doc_state)
     = Res 500 (Failure (Error ''Failed to send email: connection refused''))
   \<and> stored_by_id 0 (snd (verifyPayment mail_down_env sample_verify one_doc_state))
       = Some (stored_appointment\<lparr> status := Confirmed, paymentStatus := PaymentCompleted,
                                   paymentId := Some ''pay_1'' \<rparr>)"
proof -
  have v: "valid_signature mail_down_env sample_verify"
    by (rule sample_signature) (simp_all add: mail_down_env_def)
  have f: "store_fault mail_down_env FindOne = None" "store_fault mail_down_env Save = None"
    by (simp_all add: mail_down_env_def sample_env_def)
  have m: "sendMail mail_down_env
             (confirmation_mail (confirmed_by sample_verify stored_appointment)
                (body_paymentId sample_verify)) = Inl ''connection refused''"
    by (simp add: mail_down_env_def)
  from mail_failure_fails_confirmation [OF v f sample_stored m] show ?thesis
    by (simp add: confirmed_by_def sample_verify_def stored_appointment_def)
qed

text \<open>
  The claim as written fails: with the transport down, a valid confirmation of a stored
  appointment is persisted and answered with status 500.
\<close>

theorem mail_failure_is_an_error:
  "valid_signature mail_down_env sample_verify
   \<and> stored_by_order sample_verify one_doc_state = Some stored_appointment
   \<and> map status (docs (snd (verifyPayment mail_down_env sample_verify one_doc_state))) = [Confirmed]
   \<and> code (fst (verifyPayment mail_down_env sample_verify one_doc_state)) = 500"
proof -
  have v: "valid_signature mail_down_env sample_verify"
    by (rule sample_signature) (simp_all add: mail_down_env_def)
  have f: "store_fault mail_down_env FindOne = None" "store_fault mail_down_env Save = None"
    by (simp_all add: mail_down_env_def sample_env_def)
  have m: "sendMail mail_down_env
             (confirmation_mail (confirmed_by sample_verify stored_appointment)
                (body_paymentId sample_verify)) = Inl ''connection refused''"
    by (simp add: mail_down_env_def)
  have "code (fst (verifyPayment mail_down_env sample_verify one_doc_state)) = 500"
    by (simp add: verify_valid [OF v f sample_stored] sendEmail_def Let_def m)
  moreover have "map status (docs (snd (verifyPayment mail_down_env sample_verify one_doc_state)))
      = [Confirmed]"
    by (simp add: verify_valid_docs [OF v f sample_stored])
       (simp add: one_doc_state_def confirmed_by_def)
  ultimately show ?thesis
    using v sample_stored by simp
qed

subsection \<open>C1: a cancelled appointment\<close>











subsection \<open>C6: one appointment per slot\<close>















subsection \<open>C8: a page of the listing\<close>






























subsection \<open>The pattern test decides the language of the pattern\<close>

lemma nullable_lang: "nullable r \<longleftrightarrow> [] \<in> lang r"
  by (induction r) (auto intro: star_nil)

lemma star_cons:
  assumes "x \<in> star L" and "x = c # w"
  shows "\<exists>u v. c # u \<in> L \<and> v \<in> star L \<and> w = u @ v"
  using assms
proof (induction arbitrary: w)
  case star_nil
  then show ?case by simp
next
  case (star_step u v)
  show ?case
  proof (cases u)
    case Nil
    with star_step show ?thesis by simp
  next
    case (Cons a u')
    with star_step.prems star_step.hyps show ?thesis
      by auto
  qed
qed

lemma pderiv_lang: "c # w \<in> lang r \<longleftrightarrow> (\<exists>r' \<in> set (pderiv c r). w \<in> lang r')"
proof (induction r arbitrary: w)
  case Never
  show ?case by simp
next
  case Eps
  show ?case by simp
next
  case (Sym k)
  show ?case by auto
next
  case (Seq r s)
  show ?case
  proof
    assume "c # w \<in> lang (Seq r s)"
    then obtain u v where uv: "c # w = u @ v" "u \<in> lang r" "v \<in> lang s"
      by auto
    show "\<exists>r' \<in> set (pderiv c (Seq r s)). w \<in> lang r'"
    proof (cases u)
      case Nil
      with uv have "nullable r" and "c # w \<in> lang s"
        by (simp_all add: nullable_lang)
      with Seq.IH(2) [of w] show ?thesis
        by auto
    next
      case (Cons a u')
      with uv have "c # u' \<in> lang r" and w: "w = u' @ v"
        by simp_all
      with Seq.IH(1) [of u'] obtain r' where r': "r' \<in> set (pderiv c r)" "u' \<in> lang r'"
        by auto
      from r'(1) have "Seq r' s \<in> set (pderiv c (Seq r s))"
        by simp
      moreover from r'(2) w uv(3) have "w \<in> lang (Seq r' s)"
        by auto
      ultimately show ?thesis
        by blast
    qed
  next
    assume "\<exists>r' \<in> set (pderiv c (Seq r s)). w \<in> lang r'"
    then consider
        (left) r' where "r' \<in> set (pderiv c r)" "w \<in> lang (Seq r' s)"
      | (right) "nullable r" "\<exists>r' \<in> set (pderiv c s). w \<in> lang r'"
      by (auto split: if_splits)
    then show "c # w \<in> lang (Seq r s)"
    proof cases
      case left
      then obtain u v where "w = u @ v" "u \<in> lang r'" "v \<in> lang s"
        by auto
      with left(1) Seq.IH(1) [of u] have "c # u \<in> lang r" by auto
      with \<open>w = u @ v\<close> \<open>v \<in> lang s\<close> have "(c # u) @ v \<in> lang (Seq r s)"
        by (simp del: append_Cons) blast
      with \<open>w = u @ v\<close> show ?thesis by simp
    next
      case right
      with Seq.IH(2) [of w] have "[] \<in> lang r" "c # w \<in> lang s"
        by (simp_all add: nullable_lang)
      then have "[] @ (c # w) \<in> lang (Seq r s)"
        by (simp del: append_Nil) blast
      then show ?thesis by simp
    qed
  qed
next
  case (Alt r s)
  then show ?case by auto
next
  case (Star r)
  show ?case
  proof
    assume "c # w \<in> lang (Star r)"
    then have "c # w \<in> star (lang r)" by simp
    from star_cons [OF this refl]
    obtain u v where "c # u \<in> lang r" "v \<in> star (lang r)" "w = u @ v"
      by blast
    with Star.IH [of u] show "\<exists>r' \<in> set (pderiv c (Star r)). w \<in> lang r'"
      by auto
  next
    assume "\<exists>r' \<in> set (pderiv c (Star r)). w \<in> lang r'"
    then obtain r' u v where "r' \<in> set (pderiv c r)" "w = u @ v" "u \<in> lang r'"
      "v \<in> star (lang r)"
      by auto
    with Star.IH [of u] have "c # u \<in> lang r" by auto
    from this \<open>v \<in> star (lang r)\<close> have "(c # u) @ v \<in> star (lang r)"
      by (rule star_step)
    with \<open>w = u @ v\<close> show "c # w \<in> lang (Star r)" by simp
  qed
qed

lemma rx_run_lang: "rx_run rs w \<longleftrightarrow> (\<exists>r \<in> set rs. w \<in> lang r)"
proof (induction w arbitrary: rs)
  case Nil
  show ?case by (simp add: list_ex_iff nullable_lang)
next
  case (Cons c w)
  show ?case
    by (simp add: Cons.IH pderiv_lang)
qed

lemma rx_test_lang: "rx_test r w \<longleftrightarrow> w \<in> lang r"
  by (simp add: rx_test_def rx_run_lang)


subsection \<open>What the email pattern accepts\<close>

text \<open>
  Every string the email pattern accepts ends in a dot followed by two or three word
  characters; so an address whose last label is longer is refused, whatever comes before.
\<close>

lemma star_last:
  assumes "x \<in> star L"
  shows "x = [] \<or> (\<exists>u y. x = u @ y \<and> y \<in> L)"
  using assms
proof (induction)
  case star_nil
  show ?case by simp
next
  case (star_step u v)
  from star_step.IH show ?case
  proof
    assume "v = []"
    with star_step.hyps(1) have "u @ v = [] @ u \<and> u \<in> L" by simp
    then show ?thesis by blast
  next
    assume "\<exists>u' y. v = u' @ y \<and> y \<in> L"
    then obtain u' y where "v = u' @ y" "y \<in> L" by blast
    then have "u @ v = (u @ u') @ y \<and> y \<in> L" by simp
    then show ?thesis by blast
  qed
qed

lemma plus_last:
  assumes "x \<in> lang (Plus r)"
  shows "\<exists>u y. x = u @ y \<and> y \<in> lang r"
proof -
  from assms obtain a b where x: "x = a @ b" "a \<in> lang r" "b \<in> star (lang r)"
    by (auto simp add: Plus_def)
  from star_last [OF x(3)] show ?thesis
  proof
    assume "b = []"
    with x have "x = [] @ a \<and> a \<in> lang r" by simp
    then show ?thesis by blast
  next
    assume "\<exists>u y. b = u @ y \<and> y \<in> lang r"
    then obtain u y where "b = u @ y" "y \<in> lang r" by blast
    with x have "x = (a @ u) @ y \<and> y \<in> lang r" by simp
    then show ?thesis by blast
  qed
qed

lemma lang_Seq_split:
  assumes "x \<in> lang (Seq r s)"
  obtains u v where "x = u @ v" and "u \<in> lang r" and "v \<in> lang s"
  using assms by auto

lemma lang_word_char: "x \<in> lang (Sym WordChar) \<Longrightarrow> \<exists>c. x = [c] \<and> is_word_char c"
  by auto

lemma final_label:
  assumes "y \<in> lang (Seq (Sym (OneOf ''.'')) (Seq (Times 2 (Sym WordChar)) (Opt (Sym WordChar))))"
  shows "\<exists>l. y = CHR ''.'' # l \<and> (length l = 2 \<or> length l = 3) \<and> list_all is_word_char l"
proof -
  from assms obtain d r where y: "y = d @ r" and d: "d \<in> lang (Sym (OneOf ''.''))"
    and r: "r \<in> lang (Seq (Times 2 (Sym WordChar)) (Opt (Sym WordChar)))"
    by (rule lang_Seq_split)
  from d have d': "d = ''.''"
    by simp
  from r obtain two opt where r': "r = two @ opt"
    and two: "two \<in> lang (Times 2 (Sym WordChar))" and opt: "opt \<in> lang (Opt (Sym WordChar))"
    by (rule lang_Seq_split)
  have t2: "Times 2 (Sym WordChar) = Seq (Sym WordChar) (Seq (Sym WordChar) Eps)"
    by (simp add: numeral_2_eq_2)
  from two obtain a rest where "two = a @ rest" and a: "a \<in> lang (Sym WordChar)"
    and "rest \<in> lang (Seq (Sym WordChar) Eps)"
    unfolding t2 by (rule lang_Seq_split)
  then obtain b where two': "two = a @ b" and b: "b \<in> lang (Sym WordChar)"
    by auto
  from lang_word_char [OF a] lang_word_char [OF b] two'
  have l2: "length two = 2" "list_all is_word_char two"
    by auto
  from opt have "opt = [] \<or> opt \<in> lang (Sym WordChar)"
    by (simp add: Opt_def)
  then have lo: "(length opt = 0 \<or> length opt = 1) \<and> list_all is_word_char opt"
    using lang_word_char [of opt] by auto
  from y d' r' have "y = CHR ''.'' # (two @ opt)"
    by simp
  moreover from l2 lo have "length (two @ opt) = 2 \<or> length (two @ opt) = 3"
    by auto
  moreover from l2 lo have "list_all is_word_char (two @ opt)"
    by simp
  ultimately show ?thesis
    by blast
qed

lemma email_ends_in_short_label:
  assumes "rx_test emailRegex w"
  shows "\<exists>u l. w = u @ CHR ''.'' # l \<and> (length l = 2 \<or> length l = 3)
               \<and> list_all is_word_char l"
proof -
  from assms have "w \<in> lang emailRegex"
    by (simp add: rx_test_lang)
  then obtain a1 r1 where 1: "w = a1 @ r1"
    and m1: "r1 \<in> lang (Seq (Star (Seq (Opt (Sym (OneOf ''.-''))) (Plus (Sym WordChar))))
                  (Seq (Sym (OneOf ''@''))
                  (Seq (Plus (Sym WordChar))
                  (Seq (Star (Seq (Opt (Sym (OneOf ''.-''))) (Plus (Sym WordChar))))
                       (Plus (Seq (Sym (OneOf ''.''))
                                  (Seq (Times 2 (Sym WordChar)) (Opt (Sym WordChar)))))))))"
    unfolding emailRegex_def by (rule lang_Seq_split)
  from m1 obtain a2 r2 where 2: "r1 = a2 @ r2"
    and m2: "r2 \<in> lang (Seq (Sym (OneOf ''@''))
                  (Seq (Plus (Sym WordChar))
                  (Seq (Star (Seq (Opt (Sym (OneOf ''.-''))) (Plus (Sym WordChar))))
                       (Plus (Seq (Sym (OneOf ''.''))
                                  (Seq (Times 2 (Sym WordChar)) (Opt (Sym WordChar))))))))"
    by (rule lang_Seq_split)
  from m2 obtain a3 r3 where 3: "r2 = a3 @ r3"
    and m3: "r3 \<in> lang (Seq (Plus (Sym WordChar))
                  (Seq (Star (Seq (Opt (Sym (OneOf ''.-''))) (Plus (Sym WordChar))))
                       (Plus (Seq (Sym (OneOf ''.''))
                                  (Seq (Times 2 (Sym WordChar)) (Opt (Sym WordChar)))))))"
    by (rule lang_Seq_split)
  from m3 obtain a4 r4 where 4: "r3 = a4 @ r4"
    and m4: "r4 \<in> lang (Seq (Star (Seq (Opt (Sym (OneOf ''.-''))) (Plus (Sym WordChar))))
                       (Plus (Seq (Sym (OneOf ''.''))
                                  (Seq (Times 2 (Sym WordChar)) (Opt (Sym WordChar))))))"
    by (rule lang_Seq_split)
  from m4 obtain a5 t where 5: "r4 = a5 @ t"
    and t: "t \<in> lang (Plus (Seq (Sym (OneOf ''.''))
                              (Seq (Times 2 (Sym WordChar)) (Opt (Sym WordChar)))))"
    by (rule lang_Seq_split)
  from plus_last [OF t] obtain u y where ty: "t = u @ y"
    and "y \<in> lang (Seq (Sym (OneOf ''.'')) (Seq (Times 2 (Sym WordChar)) (Opt (Sym WordChar))))"
    by blast
  from final_label [OF this(2)] obtain l where l: "y = CHR ''.'' # l"
    "length l = 2 \<or> length l = 3" "list_all is_word_char l"
    by blast
  from 1 2 3 4 5 ty l(1) have "w = (a1 @ a2 @ a3 @ a4 @ a5 @ u) @ CHR ''.'' # l"
    by simp
  with l(2,3) show ?thesis
    by blast
qed


lemma last_label_unique:
  assumes "u @ c # l = u' @ c # l'" and "c \<notin> set l" and "c \<notin> set l'"
  shows "l = l'"
proof -
  have t: "takeWhile (\<lambda>x. x \<noteq> c) (rev k @ c # r) = rev k" if "c \<notin> set k" for k r
  proof -
    have "takeWhile (\<lambda>x. x \<noteq> c) (rev k @ c # r)
            = rev k @ takeWhile (\<lambda>x. x \<noteq> c) (c # r)"
      by (rule takeWhile_append2) (use that in auto)
    then show ?thesis
      by simp
  qed
  have "takeWhile (\<lambda>x. x \<noteq> c) (rev l @ c # rev u) = rev l"
    by (rule t [OF assms(2)])
  moreover have "takeWhile (\<lambda>x. x \<noteq> c) (rev l' @ c # rev u') = rev l'"
    by (rule t [OF assms(3)])
  moreover from assms(1) have "rev (u @ c # l) = rev (u' @ c # l')"
    by simp
  then have "rev l @ c # rev u = rev l' @ c # rev u'"
    by simp
  ultimately have "rev l = rev l'"
    by simp
  then show ?thesis
    by simp
qed

lemma dot_is_no_word_char: "\<not> is_word_char CHR ''.''"
  by code_simp

lemma dot_not_word_char: "list_all is_word_char l \<Longrightarrow> CHR ''.'' \<notin> set l"
  using dot_is_no_word_char by (auto simp add: list_all_iff)

lemma long_final_label_never_matches:
  assumes "CHR ''.'' \<notin> set l" and "3 < length l"
  shows "\<not> rx_test emailRegex (u @ CHR ''.'' # l)"
proof
  assume "rx_test emailRegex (u @ CHR ''.'' # l)"
  from email_ends_in_short_label [OF this] obtain u' l' where
    e: "u @ CHR ''.'' # l = u' @ CHR ''.'' # l'" and n: "length l' = 2 \<or> length l' = 3"
    and w: "list_all is_word_char l'"
    by blast
  from last_label_unique [OF e assms(1) dot_not_word_char [OF w]] have "l = l'" .
  with n assms(2) show False
    by auto
qed

text \<open>
  The booking handler refuses every request whose email ends in a label of more than three
  characters, once the required fields are present.
\<close>

lemma long_final_label_rejected_in_general:
  assumes "find (\<lambda>(field, v). falsy v) (requiredFields b) = None"
    and "body_email b = Some (u @ CHR ''.'' # l)"
    and "CHR ''.'' \<notin> set l" and "3 < length l"
  shows "bookAppointment e b s = (Res 400 (Message ''Please enter a valid email''), s)"
  using assms(1,2) long_final_label_never_matches [OF assms(3,4), of u]
  by (simp add: bookAppointment_def)

subsection \<open>Fresh identifiers are an invariant of the handlers\<close>

text \<open>
  The empty store has fresh identifiers, and every handler keeps them fresh; the
  hypothesis on identifiers in the property of the slots holds in every reachable state.
\<close>

lemma list_all_replace_doc:
  "list_all P ds \<Longrightarrow> P a \<Longrightarrow> list_all P (replace_doc a ds)"
  by (induction ds) auto

lemma list_all_delete_doc: "list_all P ds \<Longrightarrow> list_all P (delete_doc i ds)"
  by (induction ds) auto

lemma find_Some_list_all: "find Q ds = Some f \<Longrightarrow> list_all P ds \<Longrightarrow> P f"
  by (induction ds) (auto split: if_splits)

lemma ids_fresh_book: "ids_fresh s \<Longrightarrow> ids_fresh (snd (bookAppointment e b s))"
proof (cases "passes_checks b")
  case False
  assume "ids_fresh s"
  with False book_unchecked [of b e s] show ?thesis
    by auto
next
  case True
  assume "ids_fresh s"
  then have "list_all (\<lambda>d. oid d < Suc (next_id s)) (docs s)"
    by (auto simp add: ids_fresh_def list_all_iff)
  with \<open>ids_fresh s\<close> True show ?thesis
    by (auto simp add: book_checked Let_def findOne_slot_def create_order_def save_new_def
        called_def ids_fresh_def cast_appointment_def split: option.splits sum.splits)
qed

lemma ids_fresh_verify: "ids_fresh s \<Longrightarrow> ids_fresh (snd (verifyPayment e b s))"
  by (auto simp add: verifyPayment_def findOne_orderId_def save_existing_def sendEmail_def
      called_def Let_def ids_fresh_def
      intro!: list_all_replace_doc dest: find_Some_list_all
      split: option.splits sum.splits)

lemma ids_fresh_cancel: "ids_fresh s \<Longrightarrow> ids_fresh (snd (cancelAppointment e i s))"
  by (auto simp add: cancelAppointment_def findById_def save_existing_def sendEmail_def
      called_def Let_def ids_fresh_def
      intro!: list_all_replace_doc dest: find_Some_list_all
      split: option.splits sum.splits)

lemma ids_fresh_delete: "ids_fresh s \<Longrightarrow> ids_fresh (snd (deleteAppointment e i s))"
  by (auto simp add: deleteAppointment_def findById_def findByIdAndDelete_def
      called_def Let_def ids_fresh_def
      intro!: list_all_delete_doc split: option.splits sum.splits)

lemma ids_fresh_list: "ids_fresh s \<Longrightarrow> ids_fresh (snd (getAppointments e q s))"
  by (auto simp add: getAppointments_def store_find_def countDocuments_def
      called_def Let_def ids_fresh_def split: option.splits sum.splits)

lemma ids_fresh_get: "ids_fresh s \<Longrightarrow> ids_fresh (snd (getAppointment e i s))"
  by (auto simp add: getAppointment_def findById_def
      called_def Let_def ids_fresh_def split: option.splits sum.splits)

lemma ids_fresh_empty: "ids_fresh empty_state"
  by (simp add: ids_fresh_def empty_state_def)

end
